theory Spec2Isabelle
  imports Main
begin

section \<open>JSON documents and the Python operations the generator uses on them\<close>

text \<open>
  Both input documents are what \<open>json.load\<close> returns: nested dictionaries, lists,
  strings, integers, booleans and \<open>None\<close>. A dictionary keeps the insertion order of its
  keys, which is the order \<open>.items()\<close> iterates in, so it is an association list.
  Floating-point numbers do not occur in the schema documents and are left out.
\<close>

datatype json =
    JNull
  | JBool bool
  | JInt int
  | JStr string
  | JList "json list"
  | JDict "(string \<times> json) list"

datatype error = AttributeError | TypeError | IndexError | KeyError

definition ebind :: "error + 'a \<Rightarrow> ('a \<Rightarrow> error + 'b) \<Rightarrow> error + 'b" where
  "ebind m f = (case m of Inl e \<Rightarrow> Inl e | Inr x \<Rightarrow> f x)"

fun emap :: "('a \<Rightarrow> error + 'b) \<Rightarrow> 'a list \<Rightarrow> error + 'b list" where
  "emap f [] = Inr []"
| "emap f (x # xs) = ebind (f x) (\<lambda>y. ebind (emap f xs) (\<lambda>ys. Inr (y # ys)))"

fun efilter :: "('a \<Rightarrow> error + bool) \<Rightarrow> 'a list \<Rightarrow> error + 'a list" where
  "efilter p [] = Inr []"
| "efilter p (x # xs) =
     ebind (p x) (\<lambda>b. ebind (efilter p xs) (\<lambda>ys. Inr (if b then x # ys else ys)))"

definition dict_get :: "(string \<times> json) list \<Rightarrow> string \<Rightarrow> json \<Rightarrow> json" where
  "dict_get d k dflt = (case map_of d k of None \<Rightarrow> dflt | Some v \<Rightarrow> v)"

text \<open>\<open>x.get(k, dflt)\<close>: only a dictionary has the method.\<close>

fun py_get :: "json \<Rightarrow> string \<Rightarrow> json \<Rightarrow> error + json" where
  "py_get (JDict d) k dflt = Inr (dict_get d k dflt)"
| "py_get _ k dflt = Inl AttributeError"

text \<open>Truth value of an object in a condition.\<close>

fun truthy :: "json \<Rightarrow> bool" where
  "truthy JNull = False"
| "truthy (JBool b) = b"
| "truthy (JInt i) = (i \<noteq> 0)"
| "truthy (JStr s) = (s \<noteq> [])"
| "truthy (JList xs) = (xs \<noteq> [])"
| "truthy (JDict d) = (d \<noteq> [])"

text \<open>
  \<open>for x in v\<close>: a list yields its elements, a dictionary its keys, a string its
  characters; nothing else is iterable.
\<close>

fun py_iter :: "json \<Rightarrow> error + json list" where
  "py_iter (JList xs) = Inr xs"
| "py_iter (JDict d) = Inr (map (\<lambda>kv. JStr (fst kv)) d)"
| "py_iter (JStr s) = Inr (map (\<lambda>c. JStr [c]) s)"
| "py_iter _ = Inl TypeError"

text \<open>\<open>sep.join(parts)\<close> on a list of strings.\<close>

fun join :: "string \<Rightarrow> string list \<Rightarrow> string" where
  "join sep [] = []"
| "join sep [x] = x"
| "join sep (x # y # ys) = x @ sep @ join sep (y # ys)"

text \<open>
  \<open>s.split()\<close>: the maximal runs of characters that are not whitespace. The
  whitespace characters below code point 256 are the ones listed.
\<close>

definition is_space :: "char \<Rightarrow> bool" where
  "is_space c = ((of_char c :: nat) \<in> {9, 10, 11, 12, 13, 28, 29, 30, 31, 32, 133, 160})"

fun split_acc :: "string \<Rightarrow> string \<Rightarrow> string list" where
  "split_acc cur [] = (if cur = [] then [] else [cur])"
| "split_acc cur (c # cs) =
     (if is_space c then (if cur = [] then split_acc [] cs else cur # split_acc [] cs)
      else split_acc (cur @ [c]) cs)"

definition split :: "string \<Rightarrow> string list" where
  "split s = split_acc [] s"

section \<open>The generator object\<close>

text \<open>
  \<open>seen_entities\<close> is a Python set; it is kept as the list of its members.
\<close>

record generator =
  metadata :: json
  taxonomy :: json
  views_only :: json
  corpus_parts :: "string list"
  seen_entities :: "json list"

definition init :: "json \<Rightarrow> json \<Rightarrow> json \<Rightarrow> generator" where
  "init md tx vo =
     \<lparr>metadata = md, taxonomy = tx, views_only = vo, corpus_parts = [], seen_entities = []\<rparr>"

record statistics =
  total_parts :: nat
  characters :: nat
  words :: nat
  estimated_tokens :: nat

text \<open>
  \<open>int(len(corpus.split()) * 1.3)\<close>: the product is taken in double precision and
  truncated. For every word count below \<open>10 ^ 14\<close> the truncated double is the integer
  part of the exact product, \<open>13 * n div 10\<close>: the double nearest to 1.3 is off by less than
  \<open>5 / 10 ^ 17\<close>, and the exact product is either an integer or at least a tenth away from
  one.
\<close>

definition truncated_tokens :: "nat \<Rightarrow> nat" where
  "truncated_tokens n = (13 * n) div 10"

definition calculate_statistics :: "generator \<Rightarrow> string \<Rightarrow> statistics" where
  "calculate_statistics g corpus =
     \<lparr>total_parts = length (corpus_parts g),
      characters = length corpus,
      words = length (split corpus),
      estimated_tokens = truncated_tokens (length (split corpus))\<rparr>"

subsection \<open>Classification of the entities\<close>

definition is_catalog_view :: "json \<Rightarrow> error + bool" where
  "is_catalog_view c =
     ebind (py_get c ''name'' JNull) (\<lambda>n. Inr (n = JStr ''semantic_catalog''))"

definition is_semantic_view :: "json \<Rightarrow> error + bool" where
  "is_semantic_view c =
     ebind (py_get c ''type'' JNull) (\<lambda>t.
       if t = JStr ''view''
       then ebind (py_get c ''name'' JNull) (\<lambda>n. Inr (n \<noteq> JStr ''semantic_catalog''))
       else Inr False)"

definition is_data_cube :: "json \<Rightarrow> error + bool" where
  "is_data_cube c = ebind (py_get c ''type'' JNull) (\<lambda>t. Inr (t = JStr ''cube''))"

definition catalog_views :: "json list \<Rightarrow> error + json list" where
  "catalog_views cubes_list = efilter is_catalog_view cubes_list"

definition semantic_views :: "json list \<Rightarrow> error + json list" where
  "semantic_views cubes_list = efilter is_semantic_view cubes_list"

definition data_cubes :: "json list \<Rightarrow> error + json list" where
  "data_cubes cubes_list = efilter is_data_cube cubes_list"

subsection \<open>\<open>generate_full_corpus\<close>\<close>

text \<open>
  The six stages that would append to \<open>corpus_parts\<close> are commented out in the source, so
  the body is: read \<open>cubes\<close>, build the three partitions, join \<open>corpus_parts\<close> and compute
  the statistics. Logging, the \<open>print\<close> and the statistics file are output only, and
  \<open>_save_statistics\<close> catches its own I/O failures. The result is the returned corpus, the
  statistics and the generator after the call.
\<close>

definition generate_full_corpus :: "generator \<Rightarrow> error + (string \<times> statistics \<times> generator)" where
  "generate_full_corpus g =
     ebind (py_get (metadata g) ''cubes'' (JList [])) (\<lambda>cl.
     ebind (py_iter cl) (\<lambda>cubes_list.
     ebind (catalog_views cubes_list) (\<lambda>cv.
     ebind (semantic_views cubes_list) (\<lambda>sv.
     ebind (data_cubes cubes_list) (\<lambda>dc.
       let full_corpus = join ''\<newline>\<newline>---\<newline>\<newline>'' (corpus_parts g)
       in Inr (full_corpus, calculate_statistics g full_corpus, g))))))"

text \<open>
  The metadata documents of the data model: a dictionary whose \<open>cubes\<close> entry, when it is
  there, is a list of entity records.
\<close>

fun is_dict :: "json \<Rightarrow> bool" where
  "is_dict (JDict d) = True"
| "is_dict _ = False"

definition metadata_document :: "json \<Rightarrow> bool" where
  "metadata_document md =
     (case md of
        JDict d \<Rightarrow> (case map_of d ''cubes'' of
                      None \<Rightarrow> True
                    | Some (JList es) \<Rightarrow> list_all is_dict es
                    | Some _ \<Rightarrow> False)
      | _ \<Rightarrow> False)"

text \<open>
  The rounding the specification names for the token estimate, \<open>round(words * 1.3)\<close>:
  the nearest integer to thirteen tenths of the word count, a tie going to the even
  neighbour.
\<close>

definition rounded_tokens :: "nat \<Rightarrow> nat" where
  "rounded_tokens n =
     (let q = (13 * n) div 10; r = (13 * n) mod 10
      in if r < 5 then q else if 5 < r then q + 1 else if even q then q else q + 1)"

text \<open>An entity named \<open>semantic_catalog\<close> whose type is \<open>cube\<close>.\<close>

definition catalog_cube :: json where
  "catalog_cube = JDict [(''name'', JStr ''semantic_catalog''), (''type'', JStr ''cube'')]"

section \<open>Text conversion\<close>

text \<open>
  An f-string field \<open>{v}\<close> holds \<open>str(v)\<close>: a string stands for itself, every other value
  is printed as \<open>repr\<close> prints it. Characters are the code points below 256; of those,
  \<open>repr\<close> escapes the backslash, the chosen quote, the control characters, the no-break
  space and the soft hyphen.
\<close>

fun digits :: "nat \<Rightarrow> string" where
  "digits n =
     (if n < 10 then [''0123456789'' ! n]
      else digits (n div 10) @ [''0123456789'' ! (n mod 10)])"

definition str_int :: "int \<Rightarrow> string" where
  "str_int i = (if i < 0 then ''-'' @ digits (nat (- i)) else digits (nat i))"

definition hex2 :: "nat \<Rightarrow> string" where
  "hex2 n = [''0123456789abcdef'' ! (n div 16), ''0123456789abcdef'' ! (n mod 16)]"

definition printable :: "char \<Rightarrow> bool" where
  "printable c =
     (let n = (of_char c :: nat) in 32 \<le> n \<and> n < 127 \<or> 161 \<le> n \<and> n \<noteq> 173)"

definition repr_char :: "char \<Rightarrow> char \<Rightarrow> string" where
  "repr_char quote c =
     (if c = quote \<or> c = CHR 0x5C then [CHR 0x5C, c]
      else if c = CHR 0x09 then [CHR 0x5C, CHR ''t'']
      else if c = CHR 0x0A then [CHR 0x5C, CHR ''n'']
      else if c = CHR 0x0D then [CHR 0x5C, CHR ''r'']
      else if printable c then [c]
      else [CHR 0x5C, CHR ''x''] @ hex2 (of_char c))"

definition repr_str :: "string \<Rightarrow> string" where
  "repr_str s =
     (let quote = (if CHR 0x27 \<in> set s \<and> CHR 0x22 \<notin> set s then CHR 0x22 else CHR 0x27)
      in [quote] @ concat (map (repr_char quote) s) @ [quote])"

fun py_repr :: "json \<Rightarrow> string" where
  "py_repr JNull = ''None''"
| "py_repr (JBool b) = (if b then ''True'' else ''False'')"
| "py_repr (JInt i) = str_int i"
| "py_repr (JStr s) = repr_str s"
| "py_repr (JList xs) = ''['' @ join '', '' (map py_repr xs) @ '']''"
| "py_repr (JDict d) =
     ''{'' @ join '', '' (map (\<lambda>kv. repr_str (fst kv) @ '': '' @ py_repr (snd kv)) d) @ ''}''"

fun py_str :: "json \<Rightarrow> string" where
  "py_str (JStr s) = s"
| "py_str v = py_repr v"

text \<open>A text between single quotes, as the templates write \<open>'{v}'\<close>.\<close>

definition quoted :: "string \<Rightarrow> string" where
  "quoted s = [CHR 0x27] @ s @ [CHR 0x27]"

subsection \<open>String and container operations\<close>

text \<open>\<open>s.strip()\<close>, and \<open>s.replace('_', ' ')\<close>.\<close>

definition strip :: "string \<Rightarrow> string" where
  "strip s = rev (dropWhile is_space (rev (dropWhile is_space s)))"

definition replace_underscores :: "string \<Rightarrow> string" where
  "replace_underscores s = map (\<lambda>c. if c = CHR ''_'' then CHR '' '' else c) s"

text \<open>
  \<open>s.capitalize()\<close>: the first character in upper case, the others in lower case. The
  case mapping is that of the ASCII letters.
\<close>

definition upper_char :: "char \<Rightarrow> char" where
  "upper_char c =
     (case map_of (zip ''abcdefghijklmnopqrstuvwxyz'' ''ABCDEFGHIJKLMNOPQRSTUVWXYZ'') c of
        Some u \<Rightarrow> u | None \<Rightarrow> c)"

definition lower_char :: "char \<Rightarrow> char" where
  "lower_char c =
     (case map_of (zip ''ABCDEFGHIJKLMNOPQRSTUVWXYZ'' ''abcdefghijklmnopqrstuvwxyz'') c of
        Some l \<Rightarrow> l | None \<Rightarrow> c)"

fun capitalize :: "string \<Rightarrow> string" where
  "capitalize [] = []"
| "capitalize (c # cs) = upper_char c # map lower_char cs"

text \<open>A string method called on a value: only a string has it.\<close>

fun as_str :: "json \<Rightarrow> error + string" where
  "as_str (JStr s) = Inr s"
| "as_str _ = Inl AttributeError"

text \<open>\<open>sub in s\<close> for strings: \<open>sub\<close> occurs in \<open>s\<close> as a contiguous piece.\<close>

fun starts_with :: "string \<Rightarrow> string \<Rightarrow> bool" where
  "starts_with [] s = True"
| "starts_with (a # as) [] = False"
| "starts_with (a # as) (c # cs) = (a = c \<and> starts_with as cs)"

fun contains :: "string \<Rightarrow> string \<Rightarrow> bool" where
  "contains sub [] = (sub = [])"
| "contains sub (c # cs) = (starts_with sub (c # cs) \<or> contains sub cs)"

text \<open>
  \<open>k in v\<close> for a string \<open>k\<close>: a substring test on a string, a membership test on a
  list, a key test on a dictionary, a TypeError on anything else.
\<close>

fun py_in :: "string \<Rightarrow> json \<Rightarrow> error + bool" where
  "py_in k (JStr s) = Inr (contains k s)"
| "py_in k (JList xs) = Inr (JStr k \<in> set xs)"
| "py_in k (JDict d) = Inr (k \<in> set (map fst d))"
| "py_in k _ = Inl TypeError"

fun py_len :: "json \<Rightarrow> error + nat" where
  "py_len (JStr s) = Inr (length s)"
| "py_len (JList xs) = Inr (length xs)"
| "py_len (JDict d) = Inr (length d)"
| "py_len _ = Inl TypeError"


text \<open>\<open>d.items()\<close>.\<close>

fun py_items :: "json \<Rightarrow> error + (string \<times> json) list" where
  "py_items (JDict d) = Inr d"
| "py_items _ = Inl AttributeError"

text \<open>\<open>sep.join(v)\<close> on a value: every item of the iterable has to be a string.\<close>

fun as_join_item :: "json \<Rightarrow> error + string" where
  "as_join_item (JStr s) = Inr s"
| "as_join_item _ = Inl TypeError"

definition py_join :: "string \<Rightarrow> json \<Rightarrow> error + string" where
  "py_join sep v =
     ebind (py_iter v) (\<lambda>items. ebind (emap as_join_item items) (\<lambda>ss. Inr (join sep ss)))"

section \<open>Field describer\<close>

definition measure_paragraph :: "json \<Rightarrow> (string \<times> json) list \<Rightarrow> string list" where
  \<open>measure_paragraph cube_name m =
     (let m_name = dict_get m ''name'' (JStr ''unknown'');
          m_title = dict_get m ''title'' m_name;
          m_short = dict_get m ''shortTitle'' (JStr []);
          m_desc_text = dict_get m ''description'' (JStr ''No description provided.'');
          m_type = dict_get m ''type'' (JStr ''unknown'');
          agg = dict_get m ''aggType'' (JStr ''unknown'');
          visible = dict_get m ''isVisible'' (JBool False);
          pub = dict_get m ''public'' (JBool False);
          cumulative = dict_get m ''cumulative'' (JBool False)
      in [''The '' @ py_str m_name @ '' is a measure in the '' @ py_str cube_name @ '' cube.'',
          ''It is a '' @ py_str agg @ '' aggregation of type '' @ py_str m_type @ ''.'',
          ''Its full name is '' @ py_str cube_name @ ''.'' @ py_str m_name,
          ''Its title is "'' @ py_str m_title @ ''".'']
         @ (if truthy m_short then [''Its short title is "'' @ py_str m_short @ ''".''] else [])
         @ [''Description: '' @ py_str m_desc_text @ ''.'',
            ''This measure is '' @ (if truthy visible then ''visible'' else ''not visible'')
              @ '' and '' @ (if truthy pub then ''public'' else ''private'') @ ''.'',
            ''It is '' @ (if truthy cumulative then ''cumulative'' else ''not cumulative'') @ ''.''])\<close>

definition generate_measure_description :: "json \<Rightarrow> json \<Rightarrow> error + string" where
  "generate_measure_description cube_name m =
     (case m of
        JDict md \<Rightarrow> Inr (join ''\<newline>'' (measure_paragraph cube_name md) @ ''\<newline>'')
      | _ \<Rightarrow> Inl AttributeError)"

text \<open>
  The last sentence of a dimension, the sub-entity note: its test
  \<open>"subEntity" in meta\<close> and its \<open>meta.get\<close> can both raise.
\<close>

definition sub_entity_note :: "json \<Rightarrow> error + string list" where
  "sub_entity_note meta =
     ebind (py_in ''subEntity'' meta) (\<lambda>present.
       if present
       then ebind (py_get meta ''subEntity'' JNull) (\<lambda>se.
              Inr [''It belongs to the sub-entity '' @ quoted (py_str se) @ ''.''])
       else Inr [])"

definition dimension_paragraph :: "json \<Rightarrow> (string \<times> json) list \<Rightarrow> error + string list" where
  \<open>dimension_paragraph cube_name d =
     (let d_name = dict_get d ''name'' (JStr ''unknown'');
          d_title = dict_get d ''title'' d_name;
          d_type = dict_get d ''type'' (JStr ''unknown'');
          d_desc_text = dict_get d ''description'' (JStr ''No description provided.'');
          primary = dict_get d ''primaryKey'' (JBool False);
          visible = dict_get d ''isVisible'' (JBool False);
          pub = dict_get d ''public'' (JBool False);
          suggest = dict_get d ''suggestFilterValues'' (JBool False);
          alias = dict_get d ''aliasMember'' (JStr []);
          meta = dict_get d ''meta'' (JDict []);
          full_name = py_str cube_name @ ''.'' @ py_str d_name
      in ebind (sub_entity_note meta) (\<lambda>note.
         Inr ([''The '' @ py_str d_name @ '' is a dimension in the '' @ py_str cube_name @ '' cube.'',
               ''It is of type '' @ py_str d_type @ ''.'',
               ''Its full name is '' @ full_name @ ''.'',
               ''Its title is "'' @ py_str d_title @ ''".'',
               ''Description: '' @ py_str d_desc_text @ ''.'',
               ''This dimension is '' @ (if truthy visible then ''visible'' else ''not visible'')
                 @ '' and '' @ (if truthy pub then ''public'' else ''private'') @ ''.'',
               ''It is '' @ (if truthy primary then ''a primary key'' else ''not a primary key'') @ ''.'',
               (if truthy suggest then ''It suggests filter values.''
                else ''It does not suggest filter values.'')]
              @ (if truthy alias
                 then [''It has an alias member '' @ quoted (py_str alias)
                         @ '', useful for joining across cubes.'']
                 else [])
              @ note)))\<close>

definition generate_dimension_description :: "json \<Rightarrow> json \<Rightarrow> error + string" where
  "generate_dimension_description cube_name d =
     (case d of
        JDict dd \<Rightarrow> ebind (dimension_paragraph cube_name dd) (\<lambda>paragraph.
                     Inr (join ''\<newline>'' paragraph @ ''\<newline>''))
      | _ \<Rightarrow> Inl AttributeError)"

section \<open>Entity describer\<close>

subsection \<open>\<open>generate_catalog_description\<close>\<close>

text \<open>\<open>any(keyword in dim_name for keyword in keywords)\<close>, which stops at the first hit.\<close>

fun any_keyword_in :: "string list \<Rightarrow> json \<Rightarrow> error + bool" where
  "any_keyword_in [] dim_name = Inr False"
| "any_keyword_in (keyword # keywords) dim_name =
     ebind (py_in keyword dim_name) (\<lambda>hit.
       if hit then Inr True else any_keyword_in keywords dim_name)"

definition catalog_keywords :: "string list" where
  "catalog_keywords = [''join'', ''relationship'', ''cube_'', ''view_'']"

definition catalog_bullet :: "(string \<times> json) list \<Rightarrow> string" where
  "catalog_bullet dim =
     ''- **'' @ py_str (dict_get dim ''title'' (JStr [])) @ '' (`''
       @ py_str (dict_get dim ''name'' (JStr ''unknown'')) @ ''`)**: ''
       @ py_str (dict_get dim ''description'' (JStr ''No description available.''))
       @ ''\<newline>''"

text \<open>The loop over the catalog's dimensions, with the text built so far.\<close>

fun catalog_loop :: "string \<Rightarrow> json list \<Rightarrow> error + string" where
  "catalog_loop desc [] = Inr desc"
| "catalog_loop desc (dim # dims) =
     (case dim of
        JDict dd \<Rightarrow>
          ebind (any_keyword_in catalog_keywords (dict_get dd ''name'' (JStr ''unknown''))) (\<lambda>hit.
            catalog_loop (if hit then desc @ catalog_bullet dd else desc) dims)
      | _ \<Rightarrow> Inl AttributeError)"

definition catalog_header :: string where
  "catalog_header =
     ''# Semantic Catalog - The Metadata Hub\<newline>\<newline>''
     @ ''The '' @ quoted ''semantic_catalog''
     @ '' is a special view that acts as a metadata registry for the entire data schema. ''
     @ ''It provides a complete picture of all available semantic views, cubes, and their relationships.\<newline>\<newline>''
     @ ''## Key Metadata Dimensions in the Catalog:\<newline>\<newline>''"

definition generate_catalog_description :: "json \<Rightarrow> error + string" where
  "generate_catalog_description catalog =
     (if \<not> truthy catalog then Inr []
      else ebind (py_get catalog ''dimensions'' (JList [])) (\<lambda>dimensions.
           ebind (py_iter dimensions) (\<lambda>dims. catalog_loop catalog_header dims)))"

subsection \<open>\<open>generate_cube_description\<close>\<close>

definition cube_header :: "(string \<times> json) list \<Rightarrow> error + string list" where
  "cube_header cube =
     (let name = dict_get cube ''name'' (JStr ''UnknownCube'');
          title = dict_get cube ''title'' name;
          ctype = dict_get cube ''type'' (JStr ''cube'');
          is_visible = dict_get cube ''isVisible'' (JBool True);
          is_public = dict_get cube ''public'' (JBool True);
          description = dict_get cube ''description'' (JStr ''used for data analysis.'');
          conn_components = dict_get cube ''connectedComponents'' (JList [])
      in ebind (as_str ctype) (\<lambda>ctype_text.
         ebind (py_len conn_components) (\<lambda>n.
         Inr [''### Cube: '' @ py_str title @ ''\<newline>'',
              ''The **'' @ py_str title @ ''** cube is a data structure wiht the description:''
                @ py_str description @ ''.\<newline>'',
              ''It has the following properties:'',
              ''- **Name:** '' @ py_str name,
              ''- **Title:** '' @ py_str title,
              ''- **Type:** '' @ capitalize ctype_text,
              ''- **Visibility:** '' @ (if truthy is_visible then ''visible'' else ''not visible'')
                @ '', '' @ (if truthy is_public then ''public'' else ''private''),
              ''- **Connected Components:** '' @ digits n @ ''\<newline>''])))"

definition measure_brief_line :: "json \<Rightarrow> error + string" where
  \<open>measure_brief_line m =
     (case m of
        JDict md \<Rightarrow>
          (let m_name = dict_get md ''name'' (JStr ''unknown'');
               m_title = dict_get md ''title'' m_name;
               m_type = dict_get md ''type'' (JStr ''unknown'');
               m_agg = dict_get md ''aggType'' (JStr ''aggregation'')
           in ebind (as_str (dict_get md ''description'' (JStr []))) (\<lambda>text.
              Inr (''- **'' @ py_str m_name @ ''**: A **'' @ py_str m_agg
                   @ '' ** measure with following description : '' @ strip text @ ''.''
                   @ ''" This measure has the title '' @ py_str m_title
                   @ ''" and is of type '' @ py_str m_type)))
      | _ \<Rightarrow> Inl AttributeError)\<close>

definition dimension_brief_line :: "json \<Rightarrow> error + string" where
  \<open>dimension_brief_line d =
     (case d of
        JDict dd \<Rightarrow>
          (let d_name = dict_get dd ''name'' (JStr ''unknown'');
               d_title = dict_get dd ''title'' d_name;
               d_type = dict_get dd ''type'' (JStr ''unknown'');
               d_pk = dict_get dd ''primaryKey'' (JBool False);
               d_vis = dict_get dd ''isVisible'' (JBool False)
           in Inr (''- **'' @ py_str d_name @ ''**: A **'' @ py_str d_type @ ''** dimension ''
                   @ (if truthy d_pk then ''that serves as the primary key'' else [])
                   @ ''. This dimension has the title "'' @ py_str d_title @ ''" and is ''
                   @ (if truthy d_vis then ''visible'' else ''not visible'') @ ''.''))
      | _ \<Rightarrow> Inl AttributeError)\<close>

text \<open>
  A brief summary: nothing for a false value, otherwise the count line, one line for each
  field and a closing line break.
\<close>

definition brief_summary :: "string \<Rightarrow> (json \<Rightarrow> error + string) \<Rightarrow> json \<Rightarrow> error + string list" where
  "brief_summary kind line field_list =
     (if truthy field_list
      then ebind (py_len field_list) (\<lambda>n.
           ebind (py_iter field_list) (\<lambda>fs.
           ebind (emap line fs) (\<lambda>lines.
           Inr ([''This cube contains **'' @ digits n @ '' '' @ kind @ ''**:\<newline>'']
                @ lines @ [''\<newline>'']))))
      else Inr [])"

definition generate_cube_lines :: "json \<Rightarrow> error + string list" where
  "generate_cube_lines cube =
     (case cube of
        JDict c \<Rightarrow>
          ebind (cube_header c) (\<lambda>header.
          let name = dict_get c ''name'' (JStr ''UnknownCube'');
              measures = dict_get c ''measures'' (JList []);
              dims = dict_get c ''dimensions'' (JList [])
          in ebind (brief_summary ''measures'' measure_brief_line measures) (\<lambda>brief_measures.
             ebind (brief_summary ''dimensions'' dimension_brief_line dims) (\<lambda>brief_dims.
             ebind (py_iter measures) (\<lambda>ms.
             ebind (emap (generate_measure_description name) ms) (\<lambda>detailed_measures.
             ebind (py_iter dims) (\<lambda>ds.
             ebind (emap (generate_dimension_description name) ds) (\<lambda>detailed_dims.
             Inr (header
                  @ [''## Measures (Brief Summary)\<newline>''] @ brief_measures
                  @ [''## Dimensions (Brief Summary)\<newline>''] @ brief_dims
                  @ [''## Detailed Measure Descriptions\<newline>'',
                     ''Below is a detailed breakdown of each measure, including type, aggregation ''
                     @ ''behavior, visibility, titles, and additional metadata:\<newline>'']
                  @ detailed_measures
                  @ [''\<newline>'']
                  @ [''## Detailed Dimension Descriptions\<newline>'',
                     ''The following section provides detailed information for each dimension, ''
                     @ ''including type, primary key status, visibility, titles, and other metadata:\<newline>'']
                  @ detailed_dims))))))))
      | _ \<Rightarrow> Inl AttributeError)"

definition generate_cube_description :: "json \<Rightarrow> error + string" where
  "generate_cube_description cube =
     ebind (generate_cube_lines cube) (\<lambda>desc. Inr (join ''\<newline>'' desc))"

subsection \<open>\<open>generate_view_description\<close>\<close>

text \<open>
  Members of a Python set are hashable: \<open>None\<close>, booleans, integers and strings. Two
  of them are equal when they are the same value, a boolean counting as the integer 0 or 1.
\<close>

fun hashable :: "json \<Rightarrow> bool" where
  "hashable (JList xs) = False"
| "hashable (JDict d) = False"
| "hashable _ = True"

fun key_of :: "json \<Rightarrow> json" where
  "key_of (JBool b) = JInt (if b then 1 else 0)"
| "key_of v = v"

text \<open>\<open>x == y\<close> where \<open>y\<close> is hashable.\<close>

definition eq_hashable :: "json \<Rightarrow> json \<Rightarrow> bool" where
  "eq_hashable x y = (key_of x = key_of y)"

definition seen_member :: "json \<Rightarrow> json list \<Rightarrow> bool" where
  "seen_member x seen = (key_of x \<in> set (map key_of seen))"

definition seen_add :: "json \<Rightarrow> json list \<Rightarrow> json list" where
  "seen_add x seen = (if seen_member x seen then seen else seen @ [x])"

text \<open>
  The innermost loop of the taxonomy search, over the views of one subdivision: the
  first entry with the view's name appends its sentence and \<open>break\<close> leaves this loop.
\<close>

fun views_loop :: "json \<Rightarrow> json \<Rightarrow> json list \<Rightarrow> error + string" where
  "views_loop subdiv_data view_name [] = Inr []"
| "views_loop subdiv_data view_name (v # vs) =
     ebind (py_get v ''name'' JNull) (\<lambda>n.
       if eq_hashable n view_name
       then ebind (py_get subdiv_data ''display_name'' JNull) (\<lambda>display_name.
            ebind (py_get v ''functional_area'' JNull) (\<lambda>functional_area.
            Inr (''**Business Context**: Belongs to the '' @ quoted (py_str display_name)
                 @ '' subdivision and is used for '' @ quoted (py_str functional_area)
                 @ ''.\<newline>\<newline>'')))
       else views_loop subdiv_data view_name vs)"

text \<open>The middle loop, over the subdivisions of one business unit, and the outer loop.\<close>

definition subdivision_context :: "json \<Rightarrow> json \<Rightarrow> error + string" where
  "subdivision_context view_name subdiv_data =
     ebind (py_get subdiv_data ''views'' (JList [])) (\<lambda>views.
     ebind (py_iter views) (\<lambda>vs. views_loop subdiv_data view_name vs))"

definition business_unit_context :: "json \<Rightarrow> json \<Rightarrow> error + string" where
  "business_unit_context view_name bu_data =
     ebind (py_get bu_data ''subdivisions'' (JDict [])) (\<lambda>subdivisions.
     ebind (py_items subdivisions) (\<lambda>items.
     ebind (emap (\<lambda>kv. subdivision_context view_name (snd kv)) items) (\<lambda>parts.
     Inr (concat parts))))"

definition business_context :: "json \<Rightarrow> json \<Rightarrow> error + string" where
  "business_context tx view_name =
     (if truthy tx
      then ebind (py_get tx ''hierarchy'' (JDict [])) (\<lambda>hierarchy.
           ebind (py_get hierarchy ''division'' (JDict [])) (\<lambda>division.
           ebind (py_get division ''business_units'' (JDict [])) (\<lambda>business_units.
           ebind (py_items business_units) (\<lambda>items.
           ebind (emap (\<lambda>kv. business_unit_context view_name (snd kv)) items) (\<lambda>parts.
           Inr (concat parts))))))
      else Inr [])"

definition view_measure_line :: "json \<Rightarrow> error + string" where
  "view_measure_line m =
     (case m of
        JDict md \<Rightarrow>
          Inr (''- **'' @ py_str (dict_get md ''title'' (dict_get md ''name'' JNull))
               @ ''** (`'' @ py_str (dict_get md ''name'' JNull) @ ''`): A `''
               @ py_str (dict_get md ''aggType'' JNull) @ ''` aggregation.\<newline>'')
      | _ \<Rightarrow> Inl AttributeError)"

definition view_dimension_line :: "json \<Rightarrow> error + string" where
  "view_dimension_line d =
     (case d of
        JDict dd \<Rightarrow>
          Inr (''- **'' @ py_str (dict_get dd ''title'' (dict_get dd ''name'' JNull))
               @ ''** (`'' @ py_str (dict_get dd ''name'' JNull) @ ''`): Data type is `''
               @ py_str (dict_get dd ''type'' JNull) @ ''`.\<newline>'')
      | _ \<Rightarrow> Inl AttributeError)"

text \<open>A listing of the view: nothing for a false value, else a heading and the lines.\<close>

definition view_listing :: "string \<Rightarrow> (json \<Rightarrow> error + string) \<Rightarrow> json \<Rightarrow> error + string" where
  "view_listing heading line field_list =
     (if truthy field_list
      then ebind (py_iter field_list) (\<lambda>fs.
           ebind (emap line fs) (\<lambda>lines. Inr (heading @ concat lines)))
      else Inr [])"

text \<open>The text of a view that has not been rendered before.\<close>

definition view_body :: "json \<Rightarrow> json \<Rightarrow> (string \<times> json) list \<Rightarrow> error + string" where
  "view_body tx view_name view =
     (let head =
            ''# Semantic View: '' @ py_str (dict_get view ''title'' view_name) @ ''\<newline>\<newline>''
            @ ''**Technical Name**: `'' @ py_str view_name @ ''`\<newline>\<newline>''
            @ ''**Description**: ''
            @ py_str (dict_get view ''description'' (JStr ''No description available.''))
            @ ''\<newline>\<newline>'';
          measures = dict_get view ''measures'' (JList []);
          dimensions = dict_get view ''dimensions'' (JList [])
      in ebind (business_context tx view_name) (\<lambda>context.
         ebind (view_listing (''### Key Metrics (Measures) in '' @ py_str view_name @ '':\<newline>'')
                  view_measure_line measures) (\<lambda>metrics.
         ebind (view_listing (''\<newline>### Attributes (Dimensions) in '' @ py_str view_name @ '':\<newline>'')
                  view_dimension_line dimensions) (\<lambda>attributes.
         ebind (py_iter measures) (\<lambda>ms.
         ebind (emap (generate_measure_description view_name) ms) (\<lambda>detailed_measures.
         ebind (py_iter dimensions) (\<lambda>ds.
         ebind (emap (generate_dimension_description view_name) ds) (\<lambda>detailed_dims.
         Inr (head @ context @ metrics @ attributes
              @ ''\<newline>#### Detailed Fields for '' @ py_str view_name @ '':\<newline>''
              @ concat (map (\<lambda>t. t @ ''\<newline>'') detailed_measures)
              @ concat (map (\<lambda>t. t @ ''\<newline>'') detailed_dims))))))))))"

text \<open>
  The method, with the generator before and after the call: the name is added to
  \<open>seen_entities\<close> before the text is built, so it stays added when building raises.
\<close>

definition generate_view_description :: "generator \<Rightarrow> json \<Rightarrow> (error + string) \<times> generator" where
  "generate_view_description g view =
     (if \<not> truthy view then (Inr [], g)
      else case view of
        JDict v \<Rightarrow>
          if \<not> hashable (dict_get v ''name'' JNull) then (Inl TypeError, g)
          else if seen_member (dict_get v ''name'' JNull) (seen_entities g) then (Inr [], g)
          else
            let view_name = dict_get v ''name'' (JStr ''Unknown'');
                g' = g\<lparr>seen_entities := seen_add view_name (seen_entities g)\<rparr>
            in (view_body (taxonomy g') view_name v, g')
      | _ \<Rightarrow> (Inl AttributeError, g))"

section \<open>Taxonomy renderer\<close>

text \<open>\<open>", ".join(v) if v else dflt\<close>.\<close>

definition join_or :: "string \<Rightarrow> json \<Rightarrow> error + string" where
  "join_or dflt v = (if truthy v then py_join '', '' v else Inr dflt)"

definition functional_area_line :: "json \<Rightarrow> error + string" where
  "functional_area_line area =
     (case area of
        JDict a \<Rightarrow>
          Inr (''- '' @ py_str (dict_get a ''display_name'' (dict_get a ''name'' (JStr [])))
               @ '': '' @ py_str (dict_get a ''description'' (JStr [])) @ ''.\<newline>'')
      | _ \<Rightarrow> Inl AttributeError)"

definition taxonomy_view_line :: "json \<Rightarrow> error + string" where
  "taxonomy_view_line view =
     (case view of
        JDict v \<Rightarrow>
          ebind (join_or ''no associated tags'' (dict_get v ''tags'' (JList []))) (\<lambda>tags_text.
          ebind (as_str (dict_get v ''functional_area'' (JStr []))) (\<lambda>functional_area.
          Inr (''- **'' @ py_str (dict_get v ''name'' (JStr [])) @ ''**: This is a ''
               @ py_str (dict_get v ''type'' (JStr [])) @ '' view belonging to the ''
               @ replace_underscores functional_area @ '' functional area. ''
               @ ''It includes tags such as '' @ tags_text @ ''.\<newline>'')))
      | _ \<Rightarrow> Inl AttributeError)"

text \<open>
  A bullet list of a subdivision: nothing for a false value, else the heading, the lines
  and an empty line.
\<close>

definition bullet_list :: "string \<Rightarrow> (json \<Rightarrow> error + string) \<Rightarrow> json \<Rightarrow> error + string" where
  "bullet_list heading line entries =
     (if truthy entries
      then ebind (py_iter entries) (\<lambda>es.
           ebind (emap line es) (\<lambda>lines. Inr (heading @ concat lines @ ''\<newline>'')))
      else Inr [])"

definition subdivision_text :: "string \<Rightarrow> string \<times> json \<Rightarrow> error + string" where
  "subdivision_text bu_name item =
     (let subdiv_name = fst item; subdiv_data = snd item
      in ebind (py_get subdiv_data ''description'' (JStr ''N/A'')) (\<lambda>subdiv_desc.
         ebind (py_get subdiv_data ''functional_areas'' (JList [])) (\<lambda>functional_areas.
         ebind (bullet_list ''**Functional Areas:**\<newline>'' functional_area_line functional_areas)
           (\<lambda>areas_text.
         ebind (py_get subdiv_data ''views'' (JList [])) (\<lambda>views.
         ebind (bullet_list ''**Views:**\<newline>'' taxonomy_view_line views) (\<lambda>views_text.
         Inr (''##### Subdivision: '' @ subdiv_name @ ''\<newline>\<newline>''
              @ ''The '' @ bu_name @ '' business unit has a **'' @ subdiv_name
              @ ''** subdivision and is used for '' @ py_str subdiv_desc @ ''\<newline>\<newline>''
              @ areas_text @ views_text)))))))"

definition business_unit_text :: "json \<Rightarrow> string \<times> json \<Rightarrow> error + string" where
  "business_unit_text div_name item =
     (let bu_name = fst item; bu_data = snd item
      in ebind (py_get bu_data ''display_name'' (JStr ''Unknown'')) (\<lambda>display_name.
         ebind (py_get bu_data ''description'' (JStr ''Unknown'')) (\<lambda>description.
         ebind (py_get bu_data ''subdivisions'' (JDict [])) (\<lambda>subdivisions.
         ebind (py_items subdivisions) (\<lambda>items.
         ebind (emap (subdivision_text bu_name) items) (\<lambda>parts.
         Inr (''#### Business Unit: '' @ bu_name @ ''\<newline>\<newline>''
              @ ''The '' @ py_str div_name @ '' division contains the **'' @ bu_name
              @ ''** business unit.\<newline>\<newline>''
              @ ''The division with name is known as '' @ quoted (py_str display_name)
              @ '' and  is user for : '' @ py_str description @ ''.\<newline>\<newline>''
              @ concat parts)))))))"

definition classification_line :: "string \<times> json \<Rightarrow> error + string" where
  "classification_line item =
     (let vc_name = fst item; vc_data = snd item
      in ebind (py_get vc_data ''purpose'' (JStr ''No purpose provided'')) (\<lambda>purpose.
         ebind (py_get vc_data ''data_domains'' (JList [])) (\<lambda>data_domains.
         ebind (py_get vc_data ''primary_users'' (JList [])) (\<lambda>primary_users.
         ebind (py_get vc_data ''update_frequency'' (JStr ''unknown frequency'')) (\<lambda>update_freq.
         ebind (join_or ''no data domains'' data_domains) (\<lambda>domains_text.
         ebind (join_or ''no defined users'' primary_users) (\<lambda>users_text.
         Inr (''- **'' @ vc_name @ ''**: This classification is used for '' @ py_str purpose @ ''. ''
              @ ''It covers data domains such as '' @ domains_text @ ''. ''
              @ ''The primary users of this view include '' @ users_text @ ''. ''
              @ ''The data for this classification is updated on a '' @ py_str update_freq
              @ '' basis.\<newline>''))))))))"

definition view_classifications_text :: "json \<Rightarrow> error + string" where
  "view_classifications_text view_classifications =
     (if truthy view_classifications
      then ebind (py_items view_classifications) (\<lambda>items.
           ebind (emap classification_line items) (\<lambda>lines.
           Inr (''### View Classifications\<newline>\<newline>''
                @ ''The business unit includes a set of classified views. ''
                @ ''Each classification describes the purpose of the view, the data domains it covers, ''
                @ ''its primary users, and how frequently its data is updated.\<newline>\<newline>''
                @ concat lines @ ''\<newline>'')))
      else Inr [])"

text \<open>\<open>", ".join(v) if v else None\<close>, the empty text standing for \<open>None\<close>.\<close>

definition join_or_none :: "json \<Rightarrow> error + string" where
  "join_or_none v = (if truthy v then py_join '', '' v else Inr [])"

definition relationship_entry :: "string \<times> json \<Rightarrow> error + string" where
  "relationship_entry item =
     (let view_name = fst item; vr_data = snd item
      in ebind (py_get vr_data ''related_views'' (JList [])) (\<lambda>related_views.
         ebind (py_get vr_data ''shared_measures'' (JList [])) (\<lambda>shared_measures.
         ebind (py_get vr_data ''shared_dimensions'' (JList [])) (\<lambda>shared_dimensions.
         ebind (py_get vr_data ''relationship_type'' JNull) (\<lambda>relationship_type.
         ebind (join_or ''no directly related views'' related_views) (\<lambda>related_text.
         ebind (join_or_none shared_measures) (\<lambda>measures_text.
         ebind (join_or_none shared_dimensions) (\<lambda>dimensions_text.
         Inr (''- **'' @ view_name @ ''**:\<newline>''
              @ ''  - Related views: '' @ related_text @ ''.\<newline>''
              @ (if measures_text \<noteq> []
                 then ''  - Shared measures: '' @ measures_text @ ''.\<newline>'' else [])
              @ (if dimensions_text \<noteq> []
                 then ''  - Shared dimensions: '' @ dimensions_text @ ''.\<newline>'' else [])
              @ (if truthy relationship_type
                 then ''  - Relationship type: '' @ py_str relationship_type @ ''.\<newline>'' else [])
              @ ''\<newline>'')))))))))"

definition view_relationships_text :: "json \<Rightarrow> error + string" where
  "view_relationships_text view_relationships =
     (if truthy view_relationships
      then ebind (py_items view_relationships) (\<lambda>items.
           ebind (emap relationship_entry items) (\<lambda>entries.
           Inr (''### View Relationships\<newline>\<newline>''
                @ ''This section describes how different views are connected to one another. ''
                @ ''Each entry lists related views, and when available, the shared measures, ''
                @ ''shared dimensions, or special relationship types that define how the views ''
                @ ''interact within the data ecosystem.\<newline>\<newline>''
                @ concat entries)))
      else Inr [])"

definition view_type_line :: "string \<times> json \<Rightarrow> string" where
  "view_type_line item = ''    - '' @ replace_underscores (fst item) @ '': '' @ py_str (snd item)"

definition metadata_text :: "json \<Rightarrow> error + string" where
  "metadata_text md =
     (if truthy md
      then ebind (py_get md ''total_views'' (JStr ''N/A'')) (\<lambda>total_views.
           ebind (py_get md ''view_types'' (JDict [])) (\<lambda>view_types.
           ebind (py_get md ''business_units'' (JStr ''N/A'')) (\<lambda>business_units.
           ebind (py_get md ''subdivisions'' (JStr ''N/A'')) (\<lambda>subdivisions.
           ebind (py_get md ''functional_areas'' (JStr ''N/A'')) (\<lambda>functional_areas_count.
           ebind (py_items view_types) (\<lambda>items.
           let view_type_lines = map view_type_line items;
               view_type_text = (if view_type_lines \<noteq> [] then join ''\<newline>'' view_type_lines
                                 else ''    - No detailed view types listed'')
           in Inr (''### Metadata Summary\<newline>\<newline>''
                   @ ''The following metadata provides a high-level overview of the structure and ''
                   @ ''composition of this business unit, including counts of views, view types, ''
                   @ ''business units, subdivisions, and functional areas.\<newline>\<newline>''
                   @ ''- **Total Views:** '' @ py_str total_views @ ''\<newline>''
                   @ ''- **View Types:**\<newline>'' @ view_type_text @ ''\<newline>''
                   @ ''- **Business Units:** '' @ py_str business_units @ ''\<newline>''
                   @ ''- **Subdivisions:** '' @ py_str subdivisions @ ''\<newline>''
                   @ ''- **Functional Areas:** '' @ py_str functional_areas_count
                   @ ''\<newline>\<newline>'')))))))
      else Inr [])"

text \<open>
  The method itself. The default of the \<open>organization\<close> lookup is the string
  \<open>'Organization'\<close>, and the value looked up is then asked for its \<open>name\<close> and its
  \<open>code\<close> with \<open>.get\<close>.
\<close>

definition generate_hierarchy_description :: "generator \<Rightarrow> error + string" where
  "generate_hierarchy_description g =
     (let tx = taxonomy g
      in ebind (py_get tx ''organization'' (JStr ''Organization'')) (\<lambda>organization.
         ebind (py_get organization ''name'' (JStr ''Unknown'')) (\<lambda>org_name.
         ebind (py_get organization ''code'' (JStr ''N/A'')) (\<lambda>org_code.
         ebind (py_get tx ''hierarchy'' (JDict [])) (\<lambda>hierarchy.
         ebind (py_get hierarchy ''division'' (JDict [])) (\<lambda>division.
         ebind (py_get division ''name'' (JStr ''Unknown'')) (\<lambda>div_name.
         ebind (py_get division ''business_units'' (JDict [])) (\<lambda>business_units.
         ebind (py_items business_units) (\<lambda>items.
         ebind (emap (business_unit_text div_name) items) (\<lambda>units.
         ebind (py_get tx ''view_classifications'' (JDict [])) (\<lambda>view_classifications.
         ebind (view_classifications_text view_classifications) (\<lambda>classifications.
         ebind (py_get tx ''view_relationships'' (JDict [])) (\<lambda>view_relationships.
         ebind (view_relationships_text view_relationships) (\<lambda>relationships.
         ebind (py_get tx ''metadata'' (JDict [])) (\<lambda>md.
         ebind (metadata_text md) (\<lambda>summary.
         Inr (''# Business Hierarchy\<newline>\<newline>''
              @ ''## Organizational Structure\<newline>\<newline>''
              @ ''The **'' @ py_str org_name @ ''** is the top-level organization. The code is ''
              @ py_str org_code @ ''\<newline>\<newline>''
              @ ''### Division: '' @ py_str div_name @ ''\<newline>\<newline>''
              @ ''The '' @ py_str org_name @ '' has a division called **'' @ py_str div_name
              @ ''**.\<newline>\<newline>''
              @ concat units @ classifications @ relationships @ summary
              @ ''---\<newline>\<newline>'')))))))))))))))))"

section \<open>Query-pattern synthesizer\<close>












section \<open>Concrete documents\<close>


text \<open>
  A taxonomy with one business unit and two subdivisions, \<open>S1\<close> and \<open>S2\<close>, whose
  \<open>views\<close> lists both name \<open>ViewX\<close>; and the view of that name.
\<close>

definition two_subdivisions :: json where
  "two_subdivisions =
     JDict [(''hierarchy'', JDict [(''division'', JDict [(''business_units'', JDict
       [(''BU'', JDict [(''subdivisions'', JDict
          [(''S1'', JDict [(''display_name'', JStr ''First''),
                           (''views'', JList [JDict [(''name'', JStr ''ViewX''),
                                                     (''functional_area'', JStr ''fa1'')]])]),
           (''S2'', JDict [(''display_name'', JStr ''Second''),
                           (''views'', JList [JDict [(''name'', JStr ''ViewX''),
                                                     (''functional_area'', JStr ''fa2'')]])])])])])])])]"

definition view_x :: json where
  "view_x = JDict [(''name'', JStr ''ViewX'')]"

section \<open>The catalog's keyword filter, as the specification words it\<close>

text \<open>
  A dimension whose name contains at least one of the substrings \<open>join\<close>,
  \<open>relationship\<close>, \<open>cube_\<close>, \<open>view_\<close>; the bullet line of a dimension; and a
  dimension record whose name, when it has one, is a string.
\<close>

definition name_contains_keyword :: "json \<Rightarrow> bool" where
  "name_contains_keyword dim =
     (case dim of
        JDict dd \<Rightarrow>
          (case dict_get dd ''name'' (JStr ''unknown'') of
             JStr s \<Rightarrow> contains ''join'' s \<or> contains ''relationship'' s
                       \<or> contains ''cube_'' s \<or> contains ''view_'' s
           | _ \<Rightarrow> False)
      | _ \<Rightarrow> False)"

definition bullet_of :: "json \<Rightarrow> string" where
  "bullet_of dim = (case dim of JDict dd \<Rightarrow> catalog_bullet dd | _ \<Rightarrow> [])"

definition named_record :: "json \<Rightarrow> bool" where
  "named_record dim =
     (case dim of
        JDict dd \<Rightarrow> (case dict_get dd ''name'' (JStr ''unknown'') of JStr s \<Rightarrow> True | _ \<Rightarrow> False)
      | _ \<Rightarrow> False)"

definition small_catalog :: "(string \<times> json) list" where
  "small_catalog =
     [(''name'', JStr ''semantic_catalog''),
      (''dimensions'', JList [JDict [(''name'', JStr ''view_name''), (''title'', JStr ''View'')],
                              JDict [(''name'', JStr ''owner'')],
                              JDict [(''title'', JStr ''No name'')],
                              JDict [(''name'', JStr ''cube_joins''), (''description'', JStr ''Joins'')]])]"



text \<open>A view record without a \<open>name\<close>, and a generator fresh from its constructor.\<close>

definition nameless_view :: json where
  "nameless_view = JDict [(''title'', JStr ''T'')]"

definition fresh :: generator where
  "fresh = init (JDict []) (JDict []) (JDict [])"

section \<open>Properties\<close>

lemma ebind_simps [simp]: "ebind (Inl e) f = Inl e" "ebind (Inr x) f = f x"
  by (simp_all add: ebind_def)

subsection \<open>The default pipeline produces the empty corpus\<close>

lemma efilter_dicts_total:
  assumes "list_all is_dict es" and "\<And>d. \<exists>b. p (JDict d) = Inr b"
  shows "\<exists>r. efilter p es = Inr r"
  using assms(1)
proof (induction es)
  case Nil
  show ?case by simp
next
  case (Cons x xs)
  then obtain d where x: "x = JDict d" by (cases x) simp_all
  from assms(2) obtain b where b: "p (JDict d) = Inr b" by blast
  from Cons obtain r where r: "efilter p xs = Inr r" by auto
  show ?case by (simp add: x b r)
qed

lemma catalog_views_total: "list_all is_dict es \<Longrightarrow> \<exists>r. catalog_views es = Inr r"
  unfolding catalog_views_def by (rule efilter_dicts_total) (simp_all add: is_catalog_view_def)

lemma semantic_views_total: "list_all is_dict es \<Longrightarrow> \<exists>r. semantic_views es = Inr r"
  unfolding semantic_views_def by (rule efilter_dicts_total) (auto simp: is_semantic_view_def)

lemma data_cubes_total: "list_all is_dict es \<Longrightarrow> \<exists>r. data_cubes es = Inr r"
  unfolding data_cubes_def by (rule efilter_dicts_total) (simp_all add: is_data_cube_def)

lemma cubes_of_document:
  assumes "metadata_document md"
  shows "\<exists>es. ebind (py_get md ''cubes'' (JList [])) py_iter = Inr es \<and> list_all is_dict es"
proof -
  from assms obtain d where d: "md = JDict d"
    by (cases md) (simp_all add: metadata_document_def)
  show ?thesis
  proof (cases "map_of d ''cubes''")
    case None
    then show ?thesis by (simp add: d dict_get_def)
  next
    case (Some v)
    with assms d obtain es where "v = JList es" "list_all is_dict es"
      by (cases v) (simp_all add: metadata_document_def)
    with Some show ?thesis by (simp add: d dict_get_def)
  qed
qed

text \<open>
  C1: on a freshly constructed generator, whatever the metadata document (a dictionary
  whose \<open>cubes\<close> are entity records, in particular one with no entities), the taxonomy and
  the views-only document are, \<open>generate_full_corpus\<close> returns the empty string, the
  statistics are \<open>total_parts = 0\<close>, \<open>characters = 0\<close>, \<open>words = 0\<close>,
  \<open>estimated_tokens = 0\<close>, and the generator is unchanged: no enabled stage appends a block.
\<close>

theorem generate_full_corpus_empty:
  assumes "metadata_document md"
  shows "generate_full_corpus (init md tx vo) =
           Inr ([], \<lparr>total_parts = 0, characters = 0, words = 0, estimated_tokens = 0\<rparr>,
                init md tx vo)"
proof -
  from cubes_of_document [OF assms] obtain es
    where es: "ebind (py_get md ''cubes'' (JList [])) py_iter = Inr es"
      and ok: "list_all is_dict es"
    by blast
  from es obtain cl where cl: "py_get md ''cubes'' (JList []) = Inr cl" and it: "py_iter cl = Inr es"
    by (cases "py_get md ''cubes'' (JList [])") simp_all
  from catalog_views_total [OF ok] obtain cv where cv: "catalog_views es = Inr cv" by blast
  from semantic_views_total [OF ok] obtain sv where sv: "semantic_views es = Inr sv" by blast
  from data_cubes_total [OF ok] obtain dc where dc: "data_cubes es = Inr dc" by blast
  show ?thesis
    by (simp add: generate_full_corpus_def init_def cl it cv sv dc calculate_statistics_def
        split_def truncated_tokens_def)
qed

theorem generate_full_corpus_empty_witness:
  "metadata_document (JDict [(''cubes'', JList [catalog_cube, view_x])]) \<and>
   generate_full_corpus (init (JDict [(''cubes'', JList [catalog_cube, view_x])])
                              two_subdivisions (JDict [])) =
     Inr ([], \<lparr>total_parts = 0, characters = 0, words = 0, estimated_tokens = 0\<rparr>,
          init (JDict [(''cubes'', JList [catalog_cube, view_x])]) two_subdivisions (JDict []))"
proof -
  have h: "metadata_document (JDict [(''cubes'', JList [catalog_cube, view_x])])"
    by (simp add: metadata_document_def catalog_cube_def view_x_def)
  from h generate_full_corpus_empty [OF h] show ?thesis by simp
qed

subsection \<open>The three partitions\<close>

text \<open>
  An entity of type \<open>view\<close> is in exactly one of the catalog and the semantic views,
  and an entity of type \<open>cube\<close> under another name than the catalog's is a data cube only.
\<close>

lemma view_in_one_partition:
  assumes "dict_get d ''type'' JNull = JStr ''view''"
  shows "is_data_cube (JDict d) = Inr False \<and>
         (\<exists>b. is_catalog_view (JDict d) = Inr b \<and> is_semantic_view (JDict d) = Inr (\<not> b))"
  using assms by (simp add: is_data_cube_def is_catalog_view_def is_semantic_view_def)

lemma cube_in_one_partition:
  assumes "dict_get d ''type'' JNull = JStr ''cube''"
    and "dict_get d ''name'' JNull \<noteq> JStr ''semantic_catalog''"
  shows "is_data_cube (JDict d) = Inr True \<and> is_catalog_view (JDict d) = Inr False \<and>
         is_semantic_view (JDict d) = Inr False"
  using assms by (simp add: is_data_cube_def is_catalog_view_def is_semantic_view_def)

text \<open>
  C2: the classification does not put every entity into exactly one partition. The
  entity named \<open>semantic_catalog\<close> with type \<open>cube\<close> is selected both as a catalog view
  and as a data cube: the data-cube filter tests the type only, where the semantic-view
  filter also excludes the catalog's name.
\<close>

theorem catalog_cube_in_two_partitions:
  "catalog_views [catalog_cube] = Inr [catalog_cube] \<and>
   semantic_views [catalog_cube] = Inr [] \<and>
   data_cubes [catalog_cube] = Inr [catalog_cube]"
  by (simp add: catalog_views_def semantic_views_def data_cubes_def is_catalog_view_def
      is_semantic_view_def is_data_cube_def catalog_cube_def dict_get_def)

subsection \<open>The token estimate\<close>

lemma split_a_b: "split ''a b'' = [''a'', ''b'']"
  by (simp add: split_def is_space_def)

text \<open>
  C6, as stated, fails: the corpus \<open>a b\<close> has two words, its estimate is
  \<open>int(2.6) = 2\<close>, and \<open>round(2.6) = 3\<close>.
\<close>

theorem estimated_tokens_not_rounded:
  "words (calculate_statistics (init (JDict []) (JDict []) (JDict [])) ''a b'') = 2 \<and>
   estimated_tokens (calculate_statistics (init (JDict []) (JDict []) (JDict [])) ''a b'') = 2 \<and>
   rounded_tokens 2 = 3"
  by (simp add: calculate_statistics_def split_a_b truncated_tokens_def rounded_tokens_def)

text \<open>
  C6, amended: for every corpus string the estimate is the product \<open>words * 1.3\<close>
  truncated to an integer, where \<open>words\<close> is the number of whitespace-separated words;
  it is the rounded product or one less.
\<close>

theorem estimated_tokens_truncated:
  "words (calculate_statistics g corpus) = length (split corpus) \<and>
   estimated_tokens (calculate_statistics g corpus) =
     (13 * words (calculate_statistics g corpus)) div 10 \<and>
   estimated_tokens (calculate_statistics g corpus) \<le>
     rounded_tokens (words (calculate_statistics g corpus)) \<and>
   rounded_tokens (words (calculate_statistics g corpus)) \<le>
     estimated_tokens (calculate_statistics g corpus) + 1"
  by (simp add: calculate_statistics_def truncated_tokens_def rounded_tokens_def Let_def)

subsection \<open>The field describer\<close>






subsection \<open>The business context of a view\<close>

text \<open>
  C3: with \<open>ViewX\<close> listed in two subdivisions, the view describer appends two Business
  Context sentences, one for each subdivision: \<open>break\<close> leaves only the loop over one
  subdivision's views, and the loops over subdivisions and business units go on.
\<close>

theorem two_business_context_sentences:
  "fst (generate_view_description (init (JDict []) two_subdivisions (JDict [])) view_x) =
     Inr (''# Semantic View: ViewX\<newline>\<newline>''
          @ ''**Technical Name**: `ViewX`\<newline>\<newline>''
          @ ''**Description**: No description available.\<newline>\<newline>''
          @ ''**Business Context**: Belongs to the '' @ quoted ''First''
          @ '' subdivision and is used for '' @ quoted ''fa1'' @ ''.\<newline>\<newline>''
          @ ''**Business Context**: Belongs to the '' @ quoted ''Second''
          @ '' subdivision and is used for '' @ quoted ''fa2'' @ ''.\<newline>\<newline>''
          @ ''\<newline>#### Detailed Fields for ViewX:\<newline>'')"
  by code_simp

subsection \<open>The taxonomy renderer\<close>

text \<open>
  C4: on a taxonomy without the \<open>organization\<close> key, \<open>generate_hierarchy_description\<close>
  raises AttributeError: the default of the lookup is a string, which has no \<open>.get\<close>.
\<close>

theorem missing_organization_raises:
  "generate_hierarchy_description (init md (JDict [(''hierarchy'', JDict [])]) vo) =
     Inl AttributeError"
  by (simp add: generate_hierarchy_description_def init_def dict_get_def)

subsection \<open>Defaults of the visibility attributes\<close>

text \<open>The first eight lines of a cube description are its header.\<close>

lemma cube_header_length: "cube_header c = Inr h \<Longrightarrow> length h = 8"
  by (auto simp: cube_header_def Let_def ebind_def split: sum.splits)

lemma cube_lines_begin_with_header:
  assumes "generate_cube_lines (JDict c) = Inr ls"
  shows "\<exists>h. cube_header c = Inr h \<and> take 8 ls = h"
proof (cases "cube_header c")
  case (Inl e)
  with assms show ?thesis by (simp add: generate_cube_lines_def)
next
  case (Inr h)
  from cube_header_length [OF Inr] have len: "length h = 8" .
  from assms Inr obtain rest where "ls = h @ rest"
    by (auto simp: generate_cube_lines_def Let_def ebind_def split: sum.splits)
  with Inr len show ?thesis by simp
qed



subsection \<open>The catalog description\<close>

lemma starts_with_iff: "starts_with sub s \<longleftrightarrow> (\<exists>q. s = sub @ q)"
proof (induction sub arbitrary: s)
  case Nil
  show ?case by simp
next
  case (Cons a as)
  show ?case by (cases s) (auto simp: Cons)
qed

lemma contains_iff: "contains sub s \<longleftrightarrow> (\<exists>p q. s = p @ sub @ q)"
proof (induction s)
  case Nil
  show ?case by (cases sub) auto
next
  case (Cons c cs)
  have "(\<exists>p q. c # cs = p @ sub @ q) \<longleftrightarrow> (\<exists>q. c # cs = sub @ q) \<or> (\<exists>p q. cs = p @ sub @ q)"
  proof
    assume "\<exists>p q. c # cs = p @ sub @ q"
    then obtain p q where pq: "c # cs = p @ sub @ q" by blast
    show "(\<exists>q. c # cs = sub @ q) \<or> (\<exists>p q. cs = p @ sub @ q)"
    proof (cases p)
      case Nil
      with pq show ?thesis by auto
    next
      case (Cons a p')
      with pq have "cs = p' @ sub @ q" by simp
      then show ?thesis by blast
    qed
  next
    assume "(\<exists>q. c # cs = sub @ q) \<or> (\<exists>p q. cs = p @ sub @ q)"
    then show "\<exists>p q. c # cs = p @ sub @ q"
    proof
      assume "\<exists>q. c # cs = sub @ q"
      then obtain q where "c # cs = [] @ sub @ q" by auto
      then show ?thesis by blast
    next
      assume "\<exists>p q. cs = p @ sub @ q"
      then obtain p q where "c # cs = (c # p) @ sub @ q" by auto
      then show ?thesis by blast
    qed
  qed
  then show ?case by (simp add: Cons starts_with_iff)
qed

lemma any_keyword_in_str:
  "any_keyword_in kws (JStr s) = Inr (\<exists>kw\<in>set kws. contains kw s)"
  by (induction kws) auto

lemma catalog_loop_bullets:
  "list_all named_record dims \<Longrightarrow>
   catalog_loop desc dims =
     Inr (desc @ concat (map bullet_of (filter name_contains_keyword dims)))"
proof (induction dims arbitrary: desc)
  case Nil
  show ?case by simp
next
  case (Cons dim dims)
  from Cons.prems obtain dd s where dim: "dim = JDict dd"
    and name: "dict_get dd ''name'' (JStr ''unknown'') = JStr s"
    by (auto simp: named_record_def split: json.splits)
  from Cons.prems have rest: "list_all named_record dims" by simp
  show ?case
    by (simp add: dim name any_keyword_in_str catalog_keywords_def Cons.IH [OF rest]
        name_contains_keyword_def bullet_of_def)
qed

text \<open>
  C10: for every catalog entity whose dimensions are records with string names, the
  catalog description is its fixed heading followed by the bullet lines of exactly the
  dimensions whose name contains \<open>join\<close>, \<open>relationship\<close>, \<open>cube_\<close> or \<open>view_\<close>,
  in document order; every other dimension leaves no trace in the output.
\<close>

theorem catalog_keyword_bullets:
  assumes "catalog \<noteq> []"
    and "dict_get catalog ''dimensions'' (JList []) = JList dims"
    and "list_all named_record dims"
  shows "generate_catalog_description (JDict catalog) =
           Inr (catalog_header @ concat (map bullet_of (filter name_contains_keyword dims)))"
  using assms by (simp add: generate_catalog_description_def catalog_loop_bullets)

theorem catalog_keyword_bullets_witness:
  "small_catalog \<noteq> [] \<and>
   list_all named_record
     [JDict [(''name'', JStr ''view_name''), (''title'', JStr ''View'')],
      JDict [(''name'', JStr ''owner'')],
      JDict [(''title'', JStr ''No name'')],
      JDict [(''name'', JStr ''cube_joins''), (''description'', JStr ''Joins'')]] \<and>
   generate_catalog_description (JDict small_catalog) =
     Inr (catalog_header
          @ ''- **View (`view_name`)**: No description available.\<newline>''
          @ ''- ** (`cube_joins`)**: Joins\<newline>'')"
proof -
  have a: "small_catalog \<noteq> []" by (simp add: small_catalog_def)
  have b: "dict_get small_catalog ''dimensions'' (JList []) =
     JList [JDict [(''name'', JStr ''view_name''), (''title'', JStr ''View'')],
      JDict [(''name'', JStr ''owner'')],
      JDict [(''title'', JStr ''No name'')],
      JDict [(''name'', JStr ''cube_joins''), (''description'', JStr ''Joins'')]]"
    by (simp add: small_catalog_def dict_get_def)
  have c: "list_all named_record
     [JDict [(''name'', JStr ''view_name''), (''title'', JStr ''View'')],
      JDict [(''name'', JStr ''owner'')],
      JDict [(''title'', JStr ''No name'')],
      JDict [(''name'', JStr ''cube_joins''), (''description'', JStr ''Joins'')]]"
    by (simp add: named_record_def dict_get_def)
  from catalog_keyword_bullets [OF a b c] a c show ?thesis
    by (simp add: name_contains_keyword_def bullet_of_def catalog_bullet_def dict_get_def)
qed

subsection \<open>The query patterns\<close>


















subsection \<open>The seen entities\<close>

text \<open>
  The set starts empty and only grows, and a view with a name that has not been seen is
  rendered in full by the first call and as the empty string by the next one.
\<close>

lemma init_seen_empty: "seen_entities (init md tx vo) = []"
  by (simp add: init_def)

lemma seen_entities_grow:
  "set (seen_entities g) \<subseteq> set (seen_entities (snd (generate_view_description g view)))"
  by (auto simp: generate_view_description_def Let_def seen_add_def split: json.splits)

lemma seen_member_add: "seen_member x (seen_add x seen)"
  by (simp add: seen_add_def seen_member_def)

lemma named_view_rendered_once:
  assumes "map_of v ''name'' = Some n" and "hashable n" and "\<not> seen_member n (seen_entities g)"
  shows "generate_view_description g (JDict v) =
           (view_body (taxonomy g) n v, g\<lparr>seen_entities := seen_entities g @ [n]\<rparr>) \<and>
         generate_view_description (g\<lparr>seen_entities := seen_entities g @ [n]\<rparr>) (JDict v) =
           (Inr [], g\<lparr>seen_entities := seen_entities g @ [n]\<rparr>)"
proof -
  from assms(1) have ne: "v \<noteq> []" by auto
  from assms(1) have get: "dict_get v ''name'' d = n" for d by (simp add: dict_get_def)
  have again: "seen_member n (seen_entities g @ [n])"
    by (simp add: seen_member_def)
  show ?thesis
    using assms(2,3) ne
    by (simp add: generate_view_description_def get Let_def seen_add_def again)
qed

lemma view_body_not_empty: "view_body tx n v = Inr text \<Longrightarrow> text \<noteq> []"
  by (auto simp: view_body_def Let_def ebind_def split: sum.splits)

text \<open>
  C8: a view record without a \<open>name\<close> is rendered in full by the first call and in full
  again by the second. The membership test looks up \<open>view.get('name')\<close>, which is
  \<open>None\<close>, while the name added to the set is \<open>view.get('name', 'Unknown')\<close>.
\<close>

theorem nameless_view_rendered_again:
  "generate_view_description fresh nameless_view =
     (Inr (''# Semantic View: T\<newline>\<newline>''
           @ ''**Technical Name**: `Unknown`\<newline>\<newline>''
           @ ''**Description**: No description available.\<newline>\<newline>''
           @ ''\<newline>#### Detailed Fields for Unknown:\<newline>''),
      fresh\<lparr>seen_entities := [JStr ''Unknown'']\<rparr>) \<and>
   generate_view_description (fresh\<lparr>seen_entities := [JStr ''Unknown'']\<rparr>) nameless_view =
     (Inr (''# Semantic View: T\<newline>\<newline>''
           @ ''**Technical Name**: `Unknown`\<newline>\<newline>''
           @ ''**Description**: No description available.\<newline>\<newline>''
           @ ''\<newline>#### Detailed Fields for Unknown:\<newline>''),
      fresh\<lparr>seen_entities := [JStr ''Unknown'']\<rparr>)"
  by code_simp

end
